theory Spec2Isabelle
  imports Main
begin

section \<open>docview: a documentation panel that follows the cursor\<close>

text \<open>
  A shallow embedding of \<^verbatim>\<open>src/extension.ts\<close>. The extension listens to selection
  changes, asks the host for the hovers at the cursor after a debounce of 100ms, turns
  them into one markdown string, and writes the rendered page into a singleton webview
  panel. The host (timers, hover provider, panels) is modelled as part of an explicit
  state; the markdown library (\<^verbatim>\<open>md.render\<close>, \<^verbatim>\<open>md.utils.escapeHtml\<close>) is not part
  of the repository and is taken as a parameter wherever it is called.
\<close>

subsection \<open>Hover fragments as the values the host may hand over\<close>

text \<open>
  The callback of \<^verbatim>\<open>hover.contents.map\<close> inspects the shape of each fragment at run
  time (\<^verbatim>\<open>instanceof\<close>, \<^verbatim>\<open>typeof\<close>, \<^verbatim>\<open>in\<close>), so a fragment is modelled as a JavaScript
  value: an instance of \<^verbatim>\<open>vscode.MarkdownString\<close> (with its \<^verbatim>\<open>value\<close>), a string, a
  plain object (its properties in order, each value by its string conversion), \<^verbatim>\<open>null\<close>,
  or another primitive.
\<close>

datatype content =
    MarkdownString string
  | JsString string
  | JsObject "(string \<times> string) list"
  | JsNull
  | JsUndefined
  | JsBoolean bool
  | JsNumber int

datatype error = TypeError

text \<open>
  \<^verbatim>\<open>typeof\<close> as JavaScript defines it: \<^verbatim>\<open>typeof null\<close> is \<^verbatim>\<open>'object'\<close>.
\<close>

fun typeof :: "content \<Rightarrow> string" where
  "typeof (MarkdownString v) = ''object''"
| "typeof (JsString s) = ''string''"
| "typeof (JsObject props) = ''object''"
| "typeof JsNull = ''object''"
| "typeof JsUndefined = ''undefined''"
| "typeof (JsBoolean b) = ''boolean''"
| "typeof (JsNumber n) = ''number''"

text \<open>
  The \<^verbatim>\<open>in\<close> operator: whether the object has the property; a \<^verbatim>\<open>TypeError\<close> when the
  right operand is not an object (\<^verbatim>\<open>null\<close> or a primitive). A \<^verbatim>\<open>MarkdownString\<close> has a
  \<^verbatim>\<open>value\<close> and no \<^verbatim>\<open>language\<close>.
\<close>

fun hasProperty :: "string \<Rightarrow> content \<Rightarrow> error + bool" where
  "hasProperty k (JsObject props) = Inr (k \<in> set (map fst props))"
| "hasProperty k (MarkdownString v) = Inr (k = ''value'')"
| "hasProperty k c = Inl TypeError"

text \<open>Reading a property for a template literal: its string conversion.\<close>

fun getProperty :: "string \<Rightarrow> content \<Rightarrow> string" where
  "getProperty k (JsObject props) =
     (case map_of props k of None \<Rightarrow> ''undefined'' | Some v \<Rightarrow> v)"
| "getProperty k (MarkdownString v) = (if k = ''value'' then v else ''undefined'')"
| "getProperty k c = ''undefined''"

text \<open>
  The body of the inner callback (lines 65 to 74), branch by branch in the source's
  order:
  \<^item> \<^verbatim>\<open>content instanceof vscode.MarkdownString\<close>: its \<^verbatim>\<open>value\<close>;
  \<^item> \<^verbatim>\<open>typeof content === 'string'\<close>: the string itself;
  \<^item> \<^verbatim>\<open>typeof content === 'object' && 'language' in content && 'value' in content\<close>:
    three backquotes, the language, a newline, the value, a newline, three backquotes.
    The conjunction is evaluated from the left, and an exception of \<^verbatim>\<open>in\<close> leaves the
    callback;
  \<^item> otherwise \<^verbatim>\<open>''\<close>.
\<close>

fun contentToMarkdown :: "content \<Rightarrow> error + string" where
  "contentToMarkdown (MarkdownString v) = Inr v"
| "contentToMarkdown (JsString s) = Inr s"
| "contentToMarkdown content =
     (if typeof content = ''object'' then
        (case hasProperty ''language'' content of
           Inl e \<Rightarrow> Inl e
         | Inr False \<Rightarrow> Inr ''''
         | Inr True \<Rightarrow>
             (case hasProperty ''value'' content of
                Inl e \<Rightarrow> Inl e
              | Inr False \<Rightarrow> Inr ''''
              | Inr True \<Rightarrow>
                  Inr (''```'' @ getProperty ''language'' content @ ''\<newline>''
                        @ getProperty ''value'' content @ ''\<newline>```'')))
      else Inr '''')"

subsection \<open>Array.prototype.map and Array.prototype.join\<close>

text \<open>
  \<^verbatim>\<open>map\<close> calls the callback on the elements from left to right; the first exception
  ends it.
\<close>

fun mapE :: "('a \<Rightarrow> error + 'b) \<Rightarrow> 'a list \<Rightarrow> error + 'b list" where
  "mapE f [] = Inr []"
| "mapE f (x # xs) =
     (case f x of
        Inl e \<Rightarrow> Inl e
      | Inr y \<Rightarrow> (case mapE f xs of Inl e \<Rightarrow> Inl e | Inr ys \<Rightarrow> Inr (y # ys)))"

text \<open>
  \<^verbatim>\<open>join\<close> as the language defines it: a loop over the indices with the result so far;
  from the second element on the separator goes first; an element that is
  \<^verbatim>\<open>undefined\<close> (here \<open>None\<close>) contributes the empty string.
\<close>

fun join_loop :: "string \<Rightarrow> string option list \<Rightarrow> nat \<Rightarrow> string \<Rightarrow> string" where
  "join_loop sep [] k r = r"
| "join_loop sep (x # xs) k r =
     join_loop sep xs (Suc k)
       ((if 0 < k then r @ sep else r) @ (case x of None \<Rightarrow> '''' | Some s \<Rightarrow> s))"

definition join :: "string \<Rightarrow> string option list \<Rightarrow> string" where
  "join sep xs = join_loop sep xs 0 ''''"

subsection \<open>getHoverInfo\<close>

text \<open>
  \<^verbatim>\<open>hover.contents\<close> is tested with \<^verbatim>\<open>Array.isArray\<close>; when it is not an array the
  outer callback falls off its end and returns \<^verbatim>\<open>undefined\<close>.
\<close>

datatype contents = ContentsArray "content list" | ContentsNotArray

record hover =
  contents :: contents

definition hoverToMarkdown :: "hover \<Rightarrow> error + string option" where
  "hoverToMarkdown h =
     (case contents h of
        ContentsArray cs \<Rightarrow>
          (case mapE contentToMarkdown cs of
             Inl e \<Rightarrow> Inl e
           | Inr strs \<Rightarrow> Inr (Some (join ''\<newline>'' (map Some strs))))
      | ContentsNotArray \<Rightarrow> Inr None)"

text \<open>
  \<^verbatim>\<open>getHoverInfo\<close> after its \<^verbatim>\<open>await\<close>: the argument is what
  \<^verbatim>\<open>vscode.executeHoverProvider\<close> answered (\<open>None\<close> when it answered no list), the
  result is the function's \<^verbatim>\<open>string | undefined\<close>, or the exception that rejects
  its promise.
\<close>

definition getHoverInfo :: "hover list option \<Rightarrow> error + string option" where
  "getHoverInfo hovers =
     (case hovers of
        None \<Rightarrow> Inr None
      | Some hs \<Rightarrow>
          if 0 < length hs then
            (case mapE hoverToMarkdown hs of
               Inl e \<Rightarrow> Inl e
             | Inr strs \<Rightarrow> Inr (Some (join ''\<newline>\<newline>'' strs)))
          else Inr None)"

subsection \<open>The renderer's hook and the page\<close>

text \<open>
  The \<^verbatim>\<open>highlight\<close> option given to the markdown library (lines 5 to 8);
  \<open>escapeHtml\<close> stands for the library's \<^verbatim>\<open>md.utils.escapeHtml\<close>.
\<close>

definition highlight :: "(string \<Rightarrow> string) \<Rightarrow> string \<Rightarrow> string \<Rightarrow> string" where
  "highlight escapeHtml str lang =
     ''<pre class=\"language-'' @ lang @ ''\"><code class=\"language-'' @ lang @ ''\">''
       @ escapeHtml str @ ''</code></pre>''"

text \<open>The template of \<^verbatim>\<open>getWebviewContent\<close> before and after \<^verbatim>\<open>${htmlContent}\<close>.\<close>

definition page_head :: string where
  "page_head = concat
    [''\<newline>'',
     ''        <!DOCTYPE html>\<newline>'',
     ''        <html lang=\"en\">\<newline>'',
     ''        <head>\<newline>'',
     ''            <meta charset=\"UTF-8\">\<newline>'',
     ''            <meta name=\"viewport\" content=\"width=device-width, initial-scale=1.0\">\<newline>'',
     ''            <title>Documentation Viewer</title>\<newline>'',
     ''            <link href=\"https://cdnjs.cloudflare.com/ajax/libs/prism/1.24.1/themes/prism.min.css\" rel=\"stylesheet\" />\<newline>'',
     ''            <style>\<newline>'',
     ''                body {\<newline>'',
     ''                    font-family: var(--vscode-editor-font-family);\<newline>'',
     ''                    font-size: var(--vscode-editor-font-size);\<newline>'',
     ''                    padding: 10px;\<newline>'',
     ''                    color: var(--vscode-editor-foreground);\<newline>'',
     ''                    background-color: var(--vscode-editor-background);\<newline>'',
     ''                }\<newline>'',
     ''                pre[class*=\"language-\"] {\<newline>'',
     ''                    background-color: var(--vscode-textBlockQuote-background);\<newline>'',
     ''                    padding: 10px;\<newline>'',
     ''                    border-radius: 3px;\<newline>'',
     ''                }\<newline>'',
     ''                code[class*=\"language-\"] {\<newline>'',
     ''                    font-family: var(--vscode-editor-font-family);\<newline>'',
     ''                    background-color: transparent;\<newline>'',
     ''                    padding: 0;\<newline>'',
     ''                    border-radius: 0;\<newline>'',
     ''                }\<newline>'',
     ''            </style>\<newline>'',
     ''        </head>\<newline>'',
     ''        <body>\<newline>'',
     ''            '']"

definition page_tail :: string where
  "page_tail = concat
    [''\<newline>'',
     ''            <script src=\"https://cdnjs.cloudflare.com/ajax/libs/prism/1.24.1/components/prism-core.min.js\"></script>\<newline>'',
     ''            <script src=\"https://cdnjs.cloudflare.com/ajax/libs/prism/1.24.1/plugins/autoloader/prism-autoloader.min.js\"></script>\<newline>'',
     ''            <script>\<newline>'',
     ''                Prism.highlightAll();\<newline>'',
     ''            </script>\<newline>'',
     ''        </body>\<newline>'',
     ''        </html>\<newline>'',
     ''    '']"

text \<open>
  Line 83: \<^verbatim>\<open>content ? md.render(content) : ''\<close>. An absent content and the empty
  string are both falsy. \<open>render\<close> stands for the library's \<^verbatim>\<open>md.render\<close>.
\<close>

definition htmlContent :: "(string \<Rightarrow> string) \<Rightarrow> string option \<Rightarrow> string" where
  "htmlContent render content =
     (case content of
        None \<Rightarrow> ''''
      | Some c \<Rightarrow> if c = '''' then '''' else render c)"

definition getWebviewContent :: "(string \<Rightarrow> string) \<Rightarrow> string option \<Rightarrow> string" where
  "getWebviewContent render content = page_head @ htmlContent render content @ page_tail"

subsection \<open>The host and the extension's variables\<close>

text \<open>
  \<^verbatim>\<open>vscode.Position\<close> and its \<^verbatim>\<open>isEqual\<close>: equal line and equal character.
\<close>

record position =
  line :: nat
  character :: nat

definition isEqual :: "position \<Rightarrow> position \<Rightarrow> bool" where
  "isEqual p other \<longleftrightarrow> line p = line other \<and> character p = character other"

text \<open>
  A text editor as the extension reads it: \<^verbatim>\<open>editor.document\<close> (by its uri) and
  \<^verbatim>\<open>editor.selection.active\<close>.
\<close>

record text_editor =
  document :: string
  selection_active :: position

datatype view_column = Active | Beside | Column nat

text \<open>
  The one listener the extension registers with \<^verbatim>\<open>onDidDispose\<close> (lines 141 to 143):
  the arrow function that sets \<^verbatim>\<open>docViewer\<close> to \<^verbatim>\<open>undefined\<close>.
\<close>

datatype listener = ClearDocViewer

record webview_panel =
  viewType :: string
  title :: string
  showOptions :: view_column
  enableScripts :: bool
  retainContextWhenHidden :: bool
  html :: string
  reveals :: "view_column list"
  disposeListeners :: "listener list"
  disposed :: bool

text \<open>
  A pending timer of \<^verbatim>\<open>setTimeout\<close>. The extension has one call site, so the callback is
  fixed and a timer keeps what its closure captured: \<^verbatim>\<open>editor\<close> and \<^verbatim>\<open>position\<close>.
\<close>

record timeout =
  handle :: nat
  due :: nat
  cb_editor :: text_editor
  cb_position :: position

datatype disposable = SelectionListener | Command string | DisposeListener nat

text \<open>
  The state: the module's \<^verbatim>\<open>docViewer\<close> (a panel by its index in \<open>panels\<close>), the
  variables \<^verbatim>\<open>lastPosition\<close> and \<^verbatim>\<open>debounceTimer\<close> of \<^verbatim>\<open>activate\<close>,
  \<^verbatim>\<open>context.subscriptions\<close>, and the host: the active editor, the clock in milliseconds,
  the pending timers in the order of their creation, the calls of
  \<^verbatim>\<open>vscode.executeHoverProvider\<close> that are not answered yet (\<open>pending\<close>), every such call
  so far (\<open>hoverCalls\<close>), and every panel created so far.
\<close>

record state =
  docViewer :: "nat option"
  lastPosition :: "position option"
  debounceTimer :: "nat option"
  subscriptions :: "disposable list"
  activeTextEditor :: "text_editor option"
  now :: nat
  timers :: "timeout list"
  nextTimer :: nat
  pending :: "(string \<times> position) list"
  hoverCalls :: "(string \<times> position) list"
  panels :: "webview_panel list"

text \<open>
  \<^verbatim>\<open>activate\<close>: both variables start \<^verbatim>\<open>undefined\<close>, the selection listener and the
  command are pushed to the subscriptions.
\<close>

definition activate :: "text_editor option \<Rightarrow> state" where
  "activate ed =
     \<lparr>docViewer = None, lastPosition = None, debounceTimer = None,
      subscriptions = [SelectionListener, Command ''docview.open''],
      activeTextEditor = ed, now = 0, timers = [], nextTimer = 0,
      pending = [], hoverCalls = [], panels = []\<rparr>"

subsection \<open>Timers\<close>

definition clearTimeout :: "nat \<Rightarrow> state \<Rightarrow> state" where
  "clearTimeout h s = s\<lparr>timers := filter (\<lambda>t. handle t \<noteq> h) (timers s)\<rparr>"

definition setTimeout :: "text_editor \<Rightarrow> position \<Rightarrow> nat \<Rightarrow> state \<Rightarrow> nat \<times> state" where
  "setTimeout editor position delay s =
     (nextTimer s,
      s\<lparr>timers := timers s @
           [\<lparr>handle = nextTimer s, due = now s + delay,
             cb_editor = editor, cb_position = position\<rparr>],
        nextTimer := Suc (nextTimer s)\<rparr>)"

subsection \<open>updateDocumentationContent, in the two halves around its await\<close>

text \<open>
  Up to the \<^verbatim>\<open>await\<close>: \<^verbatim>\<open>getHoverInfo\<close> calls the host's hover provider with the
  document's uri and the position, and the cycle is suspended.
\<close>

definition executeHoverProvider :: "string \<Rightarrow> position \<Rightarrow> state \<Rightarrow> state" where
  "executeHoverProvider uri position s =
     s\<lparr>pending := pending s @ [(uri, position)],
       hoverCalls := hoverCalls s @ [(uri, position)]\<rparr>"

definition updateDocumentationContent :: "text_editor \<Rightarrow> position \<Rightarrow> state \<Rightarrow> state" where
  "updateDocumentationContent editor position s =
     executeHoverProvider (document editor) position s"

definition setHtml :: "nat \<Rightarrow> string \<Rightarrow> state \<Rightarrow> state" where
  "setHtml p h s =
     (if p < length (panels s)
      then s\<lparr>panels := (panels s)[p := (panels s ! p)\<lparr>html := h\<rparr>]\<rparr>
      else s)"

text \<open>
  After the \<^verbatim>\<open>await\<close> (lines 151 to 154), with the host's answer: an exception of
  \<^verbatim>\<open>getHoverInfo\<close> rejects the promise and nothing is written; otherwise the page is
  written if \<^verbatim>\<open>docViewer\<close> is set at that moment.
\<close>

definition updateDocumentationContent_resume ::
  "(string \<Rightarrow> string) \<Rightarrow> hover list option \<Rightarrow> state \<Rightarrow> state" where
  "updateDocumentationContent_resume render hovers s =
     (case getHoverInfo hovers of
        Inl e \<Rightarrow> s
      | Inr docContent \<Rightarrow>
          (case docViewer s of
             None \<Rightarrow> s
           | Some p \<Rightarrow> setHtml p (getWebviewContent render docContent) s))"

text \<open>The host answers the pending call number \<open>i\<close>.\<close>

definition hoverAnswer ::
  "(string \<Rightarrow> string) \<Rightarrow> nat \<Rightarrow> hover list option \<Rightarrow> state \<Rightarrow> state" where
  "hoverAnswer render i hovers s =
     (if i < length (pending s)
      then updateDocumentationContent_resume render hovers
             (s\<lparr>pending := take i (pending s) @ drop (Suc i) (pending s)\<rparr>)
      else s)"

subsection \<open>The selection listener and its timer\<close>

text \<open>The callback given to \<^verbatim>\<open>setTimeout\<close> (lines 39 to 44).\<close>

definition timerCallback :: "timeout \<Rightarrow> state \<Rightarrow> state" where
  "timerCallback t s =
     (case docViewer s of
        None \<Rightarrow> s
      | Some p \<Rightarrow> updateDocumentationContent (cb_editor t) (cb_position t) s)"

text \<open>
  The clock advances by \<open>d\<close> milliseconds: the timers that are due leave the pending
  ones and their callbacks run, in the order of their creation (all have the same delay).
\<close>

definition elapse :: "nat \<Rightarrow> state \<Rightarrow> state" where
  "elapse d s =
     fold timerCallback
       (filter (\<lambda>t. due t \<le> now s + d) (timers s))
       (s\<lparr>now := now s + d,
          timers := filter (\<lambda>t. \<not> due t \<le> now s + d) (timers s)\<rparr>)"

text \<open>
  The listener of \<^verbatim>\<open>onDidChangeTextEditorSelection\<close> (lines 22 to 46). It does not
  read its event: the editor is \<^verbatim>\<open>vscode.window.activeTextEditor\<close> and the position is
  that editor's \<^verbatim>\<open>selection.active\<close>.
\<close>

definition onDidChangeTextEditorSelection :: "state \<Rightarrow> state" where
  "onDidChangeTextEditorSelection s =
     (case docViewer s of
        None \<Rightarrow> s
      | Some p \<Rightarrow>
          (case activeTextEditor s of
             None \<Rightarrow> s
           | Some editor \<Rightarrow>
               let position = selection_active editor in
               if (case lastPosition s of None \<Rightarrow> False | Some lp \<Rightarrow> isEqual position lp)
               then s
               else
                 let s1 = s\<lparr>lastPosition := Some position\<rparr>;
                     s2 = (case debounceTimer s1 of
                             None \<Rightarrow> s1
                           | Some h \<Rightarrow> clearTimeout h s1);
                     (h, s3) = setTimeout editor position 100 s2
                 in s3\<lparr>debounceTimer := Some h\<rparr>))"

subsection \<open>The panel\<close>

definition createWebviewPanel ::
  "string \<Rightarrow> string \<Rightarrow> view_column \<Rightarrow> bool \<Rightarrow> bool \<Rightarrow> state \<Rightarrow> nat \<times> state" where
  "createWebviewPanel vt ti col scripts retain s =
     (length (panels s),
      s\<lparr>panels := panels s @
           [\<lparr>viewType = vt, title = ti, showOptions = col, enableScripts = scripts,
             retainContextWhenHidden = retain, html = '''', reveals = [],
             disposeListeners = [], disposed = False\<rparr>]\<rparr>)"

definition reveal :: "nat \<Rightarrow> view_column \<Rightarrow> state \<Rightarrow> state" where
  "reveal p col s =
     (if p < length (panels s)
      then s\<lparr>panels := (panels s)[p := (panels s ! p)\<lparr>reveals := reveals (panels s ! p) @ [col]\<rparr>]\<rparr>
      else s)"


text \<open>
  \<^verbatim>\<open>panel.onDidDispose(listener, null, disposables)\<close>: the listener is kept by the
  panel; when \<^verbatim>\<open>disposables\<close> is the array of the extension's subscriptions the
  registration is pushed to it, when it is \<^verbatim>\<open>undefined\<close> nothing is pushed.
\<close>

datatype disposables = NoDisposables | ContextSubscriptions

definition onDidDispose :: "nat \<Rightarrow> listener \<Rightarrow> disposables \<Rightarrow> state \<Rightarrow> state" where
  "onDidDispose p l ds s =
     (if p < length (panels s)
      then
        let s' = s\<lparr>panels := (panels s)[p := (panels s ! p)\<lparr>disposeListeners := disposeListeners (panels s ! p) @ [l]\<rparr>]\<rparr>
        in (case ds of
              NoDisposables \<Rightarrow> s'
            | ContextSubscriptions \<Rightarrow> s'\<lparr>subscriptions := subscriptions s' @ [DisposeListener p]\<rparr>)
      else s)"

fun runListener :: "listener \<Rightarrow> state \<Rightarrow> state" where
  "runListener ClearDocViewer s = s\<lparr>docViewer := None\<rparr>"

text \<open>The user closes panel \<open>p\<close>: the host disposes it and runs its listeners.\<close>

definition closePanel :: "nat \<Rightarrow> state \<Rightarrow> state" where
  "closePanel p s =
     (if p < length (panels s) \<and> \<not> disposed (panels s ! p)
      then fold runListener (disposeListeners (panels s ! p))
             (s\<lparr>panels := (panels s)[p := (panels s ! p)\<lparr>disposed := True\<rparr>]\<rparr>)
      else s)"

text \<open>
  What \<^verbatim>\<open>openDocViewer\<close> receives as \<^verbatim>\<open>context\<close>. The function is registered as
  the command's handler as it is (line 50), so the host calls it with the arguments of
  the command: none when the command is run from the command palette (\<^verbatim>\<open>context\<close> is
  \<^verbatim>\<open>undefined\<close>), the document's uri when it is run from the editor's context menu. The
  declared type of the parameter is the extension's context.
\<close>

datatype handler_argument = NoArgument | UriArgument string | ExtensionContext

text \<open>
  \<^verbatim>\<open>context.subscriptions\<close>: a \<^verbatim>\<open>TypeError\<close> on \<^verbatim>\<open>undefined\<close>; \<^verbatim>\<open>undefined\<close> on a
  uri, which has no such property; the subscriptions of the extension's context.
\<close>

fun contextSubscriptions :: "handler_argument \<Rightarrow> error + disposables" where
  "contextSubscriptions NoArgument = Inl TypeError"
| "contextSubscriptions (UriArgument u) = Inr NoDisposables"
| "contextSubscriptions ExtensionContext = Inr ContextSubscriptions"

text \<open>
  \<^verbatim>\<open>openDocViewer\<close> (lines 126 to 148) up to its \<^verbatim>\<open>await\<close>: the exception that
  rejects its promise, if any, and the state it leaves. When no panel exists the panel
  is created and assigned to \<^verbatim>\<open>docViewer\<close> first; the arguments of
  \<^verbatim>\<open>onDidDispose\<close> are evaluated next, and an exception of \<^verbatim>\<open>context.subscriptions\<close>
  ends the function there, before the listener is registered and before the update.
\<close>

definition openDocViewer :: "handler_argument \<Rightarrow> state \<Rightarrow> error option \<times> state" where
  "openDocViewer context s =
     (let editor = activeTextEditor s;
          r = (case docViewer s of
                 Some p \<Rightarrow> Inr (reveal p Beside s)
               | None \<Rightarrow>
                   let (p, s') = createWebviewPanel ''docViewer'' ''Documentation Viewer''
                                   Beside True True s;
                       s'' = s'\<lparr>docViewer := Some p\<rparr>
                   in (case contextSubscriptions context of
                         Inl e \<Rightarrow> Inl (e, s'')
                       | Inr ds \<Rightarrow> Inr (onDidDispose p ClearDocViewer ds s'')))
      in case r of
           Inl (e, s1) \<Rightarrow> (Some e, s1)
         | Inr s1 \<Rightarrow>
             (None,
              case editor of
                None \<Rightarrow> s1
              | Some e \<Rightarrow> updateDocumentationContent e (selection_active e) s1))"

subsection \<open>Runs\<close>

text \<open>
  What can happen to the extension, one event at a time: the selection changes (the
  active editor, if any, is then as given), time passes, the host answers a hover call,
  the user runs the command (with the argument the host passes), the user closes a
  panel.
\<close>

datatype event =
    SelectionChange "text_editor option"
  | Elapse nat
  | HoverAnswer nat "hover list option"
  | OpenCommand handler_argument
  | ClosePanel nat

fun step :: "(string \<Rightarrow> string) \<Rightarrow> event \<Rightarrow> state \<Rightarrow> state" where
  "step render (SelectionChange ed) s =
     onDidChangeTextEditorSelection (s\<lparr>activeTextEditor := ed\<rparr>)"
| "step render (Elapse d) s = elapse d s"
| "step render (HoverAnswer i hovers) s = hoverAnswer render i hovers s"
| "step render (OpenCommand context) s = snd (openDocViewer context s)"
| "step render (ClosePanel p) s = closePanel p s"

definition run :: "(string \<Rightarrow> string) \<Rightarrow> event list \<Rightarrow> state \<Rightarrow> state" where
  "run render evs s = fold (step render) evs s"

fun isOpenCommand :: "event \<Rightarrow> bool" where
  "isOpenCommand (OpenCommand context) = True"
| "isOpenCommand ev = False"

text \<open>
  The panel \<^verbatim>\<open>docViewer\<close> refers to, if any, is a live panel that has the listener
  clearing \<^verbatim>\<open>docViewer\<close>.
\<close>

definition hooked :: "state \<Rightarrow> bool" where
  "hooked s \<longleftrightarrow>
     (case docViewer s of
        None \<Rightarrow> True
      | Some p \<Rightarrow> p < length (panels s) \<and> \<not> disposed (panels s ! p)
                  \<and> ClearDocViewer \<in> set (disposeListeners (panels s ! p)))"

subsection \<open>The specification's words, for comparison\<close>

text \<open>
  The three shapes of a fragment as the specification names them, and the text it
  assigns to each: a markdown fragment and a plain string pass through, a fragment with
  a language and a value becomes a fenced block, anything else is empty.
\<close>

fun isMarkdownString :: "content \<Rightarrow> bool" where
  "isMarkdownString (MarkdownString v) = True"
| "isMarkdownString c = False"

fun isString :: "content \<Rightarrow> bool" where
  "isString (JsString s) = True"
| "isString c = False"

fun hasLanguageAndValue :: "content \<Rightarrow> bool" where
  "hasLanguageAndValue (JsObject props) =
     (''language'' \<in> set (map fst props) \<and> ''value'' \<in> set (map fst props))"
| "hasLanguageAndValue c = False"

fun fragmentText :: "content \<Rightarrow> string" where
  "fragmentText (MarkdownString v) = v"
| "fragmentText (JsString s) = s"
| "fragmentText (JsObject props) =
     (case (map_of props ''language'', map_of props ''value'') of
        (Some l, Some v) \<Rightarrow> ''```'' @ l @ ''\<newline>'' @ v @ ''\<newline>```''
      | _ \<Rightarrow> '''')"
| "fragmentText c = ''''"

text \<open>Strings with a separator between each two neighbours.\<close>

fun separated :: "string \<Rightarrow> string list \<Rightarrow> string" where
  "separated sep [] = ''''"
| "separated sep [x] = x"
| "separated sep (x # y # ys) = x @ sep @ separated sep (y # ys)"

definition fragments :: "hover \<Rightarrow> content list" where
  "fragments h = (case contents h of ContentsArray cs \<Rightarrow> cs | ContentsNotArray \<Rightarrow> [])"

definition orEmpty :: "string option \<Rightarrow> string" where
  "orEmpty x = (case x of None \<Rightarrow> '''' | Some s \<Rightarrow> s)"

definition entryText :: "hover \<Rightarrow> string" where
  "entryText h = separated ''\<newline>'' (map fragmentText (fragments h))"

subsection \<open>Concrete inputs\<close>

definition pos :: "nat \<Rightarrow> nat \<Rightarrow> position" where
  "pos l c = \<lparr>line = l, character = c\<rparr>"

definition editorAt :: "nat \<Rightarrow> nat \<Rightarrow> text_editor" where
  "editorAt l c = \<lparr>document = ''file:///a.ts'', selection_active = pos l c\<rparr>"

definition plainHover :: "string \<Rightarrow> hover" where
  "plainHover s = \<lparr>contents = ContentsArray [JsString s]\<rparr>"

definition noRender :: "string \<Rightarrow> string" where
  "noRender m = m"

subsection \<open>Bursts of selection changes and some reachable states\<close>



text \<open>Every pending timer is the one \<^verbatim>\<open>debounceTimer\<close> refers to.\<close>

definition timerDiscipline :: "state \<Rightarrow> bool" where
  "timerDiscipline s \<longleftrightarrow> list_all (\<lambda>t. debounceTimer s = Some (handle t)) (timers s)"

text \<open>
  The panel was opened from the editor's context menu with the cursor at line 0,
  character 0, and the host has answered that there is no hover.
\<close>

definition opened :: state where
  "opened = run noRender [OpenCommand (UriArgument ''file:///a.ts''), HoverAnswer 0 (Some [])] (activate (Some (editorAt 0 0)))"


text \<open>The cursor moved 40ms ago: the timer is pending.\<close>

definition moved :: state where
  "moved = run noRender [SelectionChange (Some (editorAt 1 2)), Elapse 40] opened"

text \<open>The timer has fired and its hover call is pending.\<close>

definition inFlight :: state where
  "inFlight = run noRender [SelectionChange (Some (editorAt 1 2)), Elapse 100] opened"

text \<open>
  The command run with no argument, as from the command palette, in the initial state
  with an active editor: the exception and the state it leaves.
\<close>

definition paletteOpened :: "error option \<times> state" where
  "paletteOpened = openDocViewer NoArgument (activate (Some (editorAt 0 0)))"

text \<open>The panel was closed while the hover call was pending, and the command run again.\<close>

definition reopened :: state where
  "reopened = run noRender
     [SelectionChange (Some (editorAt 1 2)), Elapse 100, ClosePanel 0,
      OpenCommand (UriArgument ''file:///a.ts'')] opened"

section \<open>The hover fetcher and the page\<close>

lemma map_of_in: "(k \<in> fst ` set props) = (map_of props k \<noteq> None)"
  by (induction props) auto

lemma contentToMarkdown_text: "c \<noteq> JsNull \<Longrightarrow> contentToMarkdown c = Inr (fragmentText c)"
  by (cases c) (auto simp: map_of_in split: option.splits)

lemma mapE_total:
  "(\<And>x. x \<in> set xs \<Longrightarrow> f x = Inr (g x)) \<Longrightarrow> mapE f xs = Inr (map g xs)"
  by (induction xs) auto

lemma join_loop_concat:
  "join_loop sep xs (Suc k) r = r @ concat (map (\<lambda>x. sep @ orEmpty x) xs)"
  by (induction xs arbitrary: k r) (auto simp: orEmpty_def)

lemma separated_concat: "separated sep (x # ys) = x @ concat (map (\<lambda>y. sep @ y) ys)"
  by (induction ys arbitrary: x) auto

lemma join_separated: "join sep xs = separated sep (map orEmpty xs)"
proof (cases xs)
  case Nil
  then show ?thesis by (simp add: join_def)
next
  case (Cons x ys)
  have "join sep (x # ys) = join_loop sep ys (Suc 0) (orEmpty x)"
    by (simp add: join_def orEmpty_def)
  also have "\<dots> = orEmpty x @ concat (map (\<lambda>y. sep @ orEmpty y) ys)"
    by (rule join_loop_concat)
  also have "\<dots> = separated sep (orEmpty x # map orEmpty ys)"
    by (simp add: separated_concat comp_def)
  finally show ?thesis using Cons by simp
qed

lemma hoverToMarkdown_text:
  assumes "JsNull \<notin> set (fragments h)"
  shows "\<exists>r. hoverToMarkdown h = Inr r \<and> orEmpty r = entryText h"
proof (cases "contents h")
  case (ContentsArray cs)
  with assms have "\<And>c. c \<in> set cs \<Longrightarrow> contentToMarkdown c = Inr (fragmentText c)"
    by (intro contentToMarkdown_text) (auto simp: fragments_def)
  then have m: "mapE contentToMarkdown cs = Inr (map fragmentText cs)"
    by (rule mapE_total)
  have "orEmpty \<circ> (Some \<circ> fragmentText) = fragmentText"
    by (simp add: fun_eq_iff orEmpty_def)
  then have "orEmpty (Some (join ''\<newline>'' (map Some (map fragmentText cs)))) = entryText h"
    using ContentsArray by (simp add: join_separated entryText_def fragments_def orEmpty_def)
  then show ?thesis using ContentsArray m
    by (simp add: hoverToMarkdown_def)
next
  case ContentsNotArray
  then show ?thesis by (simp add: hoverToMarkdown_def entryText_def fragments_def orEmpty_def)
qed

lemma mapE_hovers:
  assumes "\<And>h. h \<in> set hs \<Longrightarrow> JsNull \<notin> set (fragments h)"
  shows "\<exists>rs. mapE hoverToMarkdown hs = Inr rs \<and> map orEmpty rs = map entryText hs"
  using assms
proof (induction hs)
  case Nil
  then show ?case by simp
next
  case (Cons h hs)
  from Cons.prems have "JsNull \<notin> set (fragments h)" by simp
  then obtain r where r: "hoverToMarkdown h = Inr r" "orEmpty r = entryText h"
    using hoverToMarkdown_text by blast
  from Cons obtain rs where rs: "mapE hoverToMarkdown hs = Inr rs" "map orEmpty rs = map entryText hs"
    by auto
  show ?case using r rs by simp
qed

lemma getHoverInfo_joined:
  assumes "hs \<noteq> []" and "\<And>h. h \<in> set hs \<Longrightarrow> JsNull \<notin> set (fragments h)"
  shows "getHoverInfo (Some hs) = Inr (Some (separated ''\<newline>\<newline>'' (map entryText hs)))"
proof -
  obtain rs where rs: "mapE hoverToMarkdown hs = Inr rs" "map orEmpty rs = map entryText hs"
    using mapE_hovers [OF assms(2)] by blast
  show ?thesis using assms(1) rs by (simp add: getHoverInfo_def join_separated)
qed





text \<open>
  Claim C5. For a non-empty list of hover entries whose fragments can all be normalised
  (none is \<^verbatim>\<open>null\<close>), \<^verbatim>\<open>getHoverInfo\<close> returns the entries' texts separated by a blank
  line, the text of an entry being its normalised fragments separated by single
  newlines. The witness is the specification's example: the entries \<^verbatim>\<open>["**bold**"]\<close>
  and \<^verbatim>\<open>["plain"]\<close> give \<^verbatim>\<open>**bold**\n\nplain\<close>.
\<close>

theorem hover_entries_joined:
  assumes "hs \<noteq> []" and "\<forall>h \<in> set hs. JsNull \<notin> set (fragments h)"
  shows "getHoverInfo (Some hs)
           = Inr (Some (separated ''\<newline>\<newline>''
                    (map (\<lambda>h. separated ''\<newline>'' (map fragmentText (fragments h))) hs)))"
  using getHoverInfo_joined [of hs] assms by (simp add: entryText_def [abs_def])

theorem hover_entries_joined_witness:
  "getHoverInfo (Some [plainHover ''**bold**'', plainHover ''plain''])
     = Inr (Some ''**bold**\<newline>\<newline>plain'')"
  using hover_entries_joined [of "[plainHover ''**bold**'', plainHover ''plain'']"]
  by (simp add: plainHover_def fragments_def)

text \<open>
  Claim C6. Normalisation returns the value of a markdown fragment and a plain string
  as they are, and wraps a fragment that has a language and a value in a fenced block
  tagged with the language. The witness is the specification's example: language
  \<^verbatim>\<open>python\<close>, value \<^verbatim>\<open>print(1)\<close>.
\<close>

theorem fragment_normalization:
  "contentToMarkdown (MarkdownString v) = Inr v
   \<and> contentToMarkdown (JsString s) = Inr s
   \<and> (map_of props ''language'' = Some l \<and> map_of props ''value'' = Some c \<longrightarrow>
        contentToMarkdown (JsObject props)
          = Inr (''```'' @ l @ ''\<newline>'' @ c @ ''\<newline>```''))"
  by (auto simp: map_of_in)

theorem fragment_normalization_witness:
  "contentToMarkdown (JsObject [(''language'', ''python''), (''value'', ''print(1)'')])
     = Inr ''```python\<newline>print(1)\<newline>```''"
  using fragment_normalization
    [of _ _ "[(''language'', ''python''), (''value'', ''print(1)'')]" "''python''" "''print(1)''"]
  by simp

text \<open>
  Claim C9. \<^verbatim>\<open>getWebviewContent\<close> gives the same page for the empty string and for
  an absent content, whatever the renderer: the empty string never reaches it.
\<close>

theorem empty_content_same_page:
  "getWebviewContent render (Some '''') = getWebviewContent render' None"
  by (simp add: getWebviewContent_def htmlContent_def)

theorem empty_content_same_page_witness:
  "getWebviewContent (\<lambda>m. ''<p>'' @ m @ ''</p>'') (Some '''') = getWebviewContent noRender None"
  by (rule empty_content_same_page)


text \<open>Every other fragment that is none of the three shapes gives the empty string.\<close>

lemma other_fragments_empty:
  assumes "\<not> isMarkdownString c" and "\<not> isString c" and "\<not> hasLanguageAndValue c"
    and "c \<noteq> JsNull"
  shows "contentToMarkdown c = Inr ''''"
proof -
  from assms have "contentToMarkdown c = Inr (fragmentText c)" and "fragmentText c = ''''"
    by (cases c; auto simp: map_of_in contentToMarkdown_text split: option.splits)+
  then show ?thesis by simp
qed

section \<open>The selection listener, the timer and the panel\<close>

lemmas model_defs =
  run_def activate_def openDocViewer_def createWebviewPanel_def onDidDispose_def reveal_def
  updateDocumentationContent_def executeHoverProvider_def hoverAnswer_def
  updateDocumentationContent_resume_def setHtml_def onDidChangeTextEditorSelection_def
  clearTimeout_def setTimeout_def elapse_def timerCallback_def closePanel_def
  isEqual_def editorAt_def pos_def plainHover_def getHoverInfo_def hoverToMarkdown_def
  join_def getWebviewContent_def htmlContent_def noRender_def Let_def

subsection \<open>The reachable states used below, computed\<close>

lemma opened_eq: "opened =
  \<lparr>docViewer = Some 0, lastPosition = None, debounceTimer = None,
   subscriptions = [SelectionListener, Command ''docview.open''],
   activeTextEditor = Some (editorAt 0 0), now = 0, timers = [], nextTimer = 0,
   pending = [], hoverCalls = [(''file:///a.ts'', pos 0 0)],
   panels = [\<lparr>viewType = ''docViewer'', title = ''Documentation Viewer'', showOptions = Beside,
     enableScripts = True, retainContextWhenHidden = True, html = page_head @ page_tail,
     reveals = [], disposeListeners = [ClearDocViewer], disposed = False\<rparr>]\<rparr>"
  by (simp add: opened_def model_defs)


lemma moved_eq: "moved =
  \<lparr>docViewer = Some 0, lastPosition = Some (pos 1 2), debounceTimer = Some 0,
   subscriptions = [SelectionListener, Command ''docview.open''],
   activeTextEditor = Some (editorAt 1 2), now = 40,
   timers = [\<lparr>handle = 0, due = 100, cb_editor = editorAt 1 2, cb_position = pos 1 2\<rparr>],
   nextTimer = 1, pending = [], hoverCalls = [(''file:///a.ts'', pos 0 0)],
   panels = [\<lparr>viewType = ''docViewer'', title = ''Documentation Viewer'', showOptions = Beside,
     enableScripts = True, retainContextWhenHidden = True, html = page_head @ page_tail,
     reveals = [], disposeListeners = [ClearDocViewer], disposed = False\<rparr>]\<rparr>"
  by (simp add: moved_def opened_eq model_defs)

subsection \<open>The timer discipline holds in every reachable state\<close>


lemma filter_handle_empty:
  "list_all (\<lambda>t. Some h = Some (handle t)) ts \<Longrightarrow> filter (\<lambda>t. handle t \<noteq> h) ts = []"
  by (induction ts) auto

lemma fold_timerCallback_timers:
  "timers (fold timerCallback ts s) = timers s
   \<and> debounceTimer (fold timerCallback ts s) = debounceTimer s"
  by (induction ts arbitrary: s)
    (auto simp: timerCallback_def updateDocumentationContent_def executeHoverProvider_def
      split: option.splits)

lemma fold_runListener_timers:
  "timers (fold runListener ls s) = timers s
   \<and> debounceTimer (fold runListener ls s) = debounceTimer s"
proof (induction ls arbitrary: s)
  case Nil
  then show ?case by simp
next
  case (Cons l ls)
  then show ?case by (cases l) simp
qed

lemma openDocViewer_timers:
  "timers (snd (openDocViewer c s)) = timers s
   \<and> debounceTimer (snd (openDocViewer c s)) = debounceTimer s"
  by (cases c)
    (auto simp: Let_def openDocViewer_def createWebviewPanel_def onDidDispose_def reveal_def
      updateDocumentationContent_def executeHoverProvider_def split: option.splits)

lemma timerDiscipline_step: "timerDiscipline s \<Longrightarrow> timerDiscipline (step render ev s)"
proof (cases ev)
  case (SelectionChange ed)
  assume td: "timerDiscipline s"
  show ?thesis
  proof (cases "debounceTimer s")
    case None
    with td have "timers s = []"
      by (cases "timers s") (auto simp: timerDiscipline_def)
    with None SelectionChange show ?thesis
      by (auto simp: timerDiscipline_def onDidChangeTextEditorSelection_def Let_def setTimeout_def
          split: option.splits)
  next
    case (Some h)
    with td have "filter (\<lambda>t. handle t \<noteq> h) (timers s) = []"
      by (intro filter_handle_empty) (simp add: timerDiscipline_def)
    with td Some SelectionChange show ?thesis
      by (auto simp: timerDiscipline_def onDidChangeTextEditorSelection_def Let_def setTimeout_def
          clearTimeout_def split: option.splits)
  qed
next
  case (Elapse d)
  assume "timerDiscipline s"
  then show ?thesis using Elapse
    by (simp add: timerDiscipline_def elapse_def fold_timerCallback_timers list_all_iff)
next
  case (HoverAnswer i hovers)
  assume "timerDiscipline s"
  then show ?thesis using HoverAnswer
    by (auto simp: timerDiscipline_def hoverAnswer_def updateDocumentationContent_resume_def
        setHtml_def split: sum.splits option.splits)
next
  case (OpenCommand c)
  assume "timerDiscipline s"
  then show ?thesis using OpenCommand
    by (simp add: timerDiscipline_def openDocViewer_timers)
next
  case (ClosePanel p)
  assume "timerDiscipline s"
  then show ?thesis using ClosePanel
    by (simp add: timerDiscipline_def closePanel_def fold_runListener_timers)
qed

lemma timerDiscipline_fold: "timerDiscipline s \<Longrightarrow> timerDiscipline (fold (step render) evs s)"
  by (induction evs arbitrary: s) (auto simp: timerDiscipline_step)

lemma timerDiscipline_reachable: "timerDiscipline (run render evs (activate ed))"
  unfolding run_def by (rule timerDiscipline_fold) (simp add: timerDiscipline_def activate_def)

subsection \<open>A burst arms one timer, for its last event\<close>





lemma fold_timerCallback_closed: "docViewer s = None \<Longrightarrow> fold timerCallback ts s = s"
  by (induction ts) (auto simp: timerCallback_def)

subsection \<open>The debounce\<close>




text \<open>
  Claim C2. A selection change whose position equals the recorded one (same line, same
  character) is ignored: apart from the host's active editor the state is the one
  before, so no hover call is made or pending, the recorded position is the same, and
  the pending timer, if any, is the same timer with the same due time.
\<close>

theorem same_position_ignored:
  assumes "lastPosition s = Some lp" and "isEqual (selection_active e) lp"
  shows "let s' = step render (SelectionChange (Some e)) s
         in s' = s\<lparr>activeTextEditor := Some e\<rparr>
          \<and> hoverCalls s' = hoverCalls s \<and> pending s' = pending s
          \<and> lastPosition s' = lastPosition s
          \<and> debounceTimer s' = debounceTimer s \<and> timers s' = timers s"
  using assms by (simp add: onDidChangeTextEditorSelection_def Let_def split: option.splits)

theorem same_position_ignored_witness:
  "step noRender (SelectionChange (Some (editorAt 1 2))) moved = moved
   \<and> timers (step noRender (SelectionChange (Some (editorAt 1 2))) moved)
       = [\<lparr>handle = 0, due = 100, cb_editor = editorAt 1 2, cb_position = pos 1 2\<rparr>]"
proof -
  have a: "lastPosition moved = Some (pos 1 2)" "isEqual (selection_active (editorAt 1 2)) (pos 1 2)"
    "moved\<lparr>activeTextEditor := Some (editorAt 1 2)\<rparr> = moved"
    "timers moved = [\<lparr>handle = 0, due = 100, cb_editor = editorAt 1 2, cb_position = pos 1 2\<rparr>]"
    by (simp_all add: moved_eq isEqual_def editorAt_def)
  show ?thesis
    using same_position_ignored [OF a(1) a(2), of noRender] a(3) a(4)
    by (simp add: Let_def)
qed

subsection \<open>The command\<close>

text \<open>
  Claim C3 does not hold of the code when the command is run with no argument, as from
  the command palette, while no panel exists: the panel is created and assigned to
  \<^verbatim>\<open>docViewer\<close>, then \<^verbatim>\<open>context.subscriptions\<close> raises a \<^verbatim>\<open>TypeError\<close>. The panel has
  no disposal listener, no hover call is made although an editor is active, and closing
  the panel leaves \<^verbatim>\<open>docViewer\<close> set.
\<close>

theorem open_command_no_argument:
  "docViewer (activate (Some (editorAt 0 0))) = None
   \<and> activeTextEditor (activate (Some (editorAt 0 0))) = Some (editorAt 0 0)
   \<and> fst paletteOpened = Some TypeError
   \<and> docViewer (snd paletteOpened) = Some 0
   \<and> length (panels (snd paletteOpened)) = 1
   \<and> disposeListeners (panels (snd paletteOpened) ! 0) = []
   \<and> hoverCalls (snd paletteOpened) = []
   \<and> docViewer (closePanel 0 (snd paletteOpened)) = Some 0"
  by (simp add: paletteOpened_def openDocViewer_def activate_def createWebviewPanel_def
      closePanel_def Let_def)

text \<open>
  With an argument, or while a panel exists, the command does what the claim says: an
  existing panel is revealed and none is created; otherwise a panel is created with
  scripts enabled and its context retained, with the listener that clears
  \<^verbatim>\<open>docViewer\<close>; with an active editor exactly one hover call is made.
\<close>

lemma openDocViewer_existing:
  assumes "docViewer s = Some p" and "p < length (panels s)"
  shows "fst (openDocViewer c s) = None
       \<and> docViewer (snd (openDocViewer c s)) = Some p
       \<and> panels (snd (openDocViewer c s))
           = (panels s)[p := (panels s ! p)\<lparr>reveals := reveals (panels s ! p) @ [Beside]\<rparr>]"
  using assms
  by (auto simp: Let_def openDocViewer_def reveal_def updateDocumentationContent_def
      executeHoverProvider_def split: option.splits)

lemma openDocViewer_new:
  assumes "docViewer s = None" and "c \<noteq> NoArgument"
  shows "fst (openDocViewer c s) = None
       \<and> docViewer (snd (openDocViewer c s)) = Some (length (panels s))
       \<and> panels (snd (openDocViewer c s)) = panels s @
            [\<lparr>viewType = ''docViewer'', title = ''Documentation Viewer'', showOptions = Beside,
              enableScripts = True, retainContextWhenHidden = True, html = '''', reveals = [],
              disposeListeners = [ClearDocViewer], disposed = False\<rparr>]
       \<and> docViewer (closePanel (length (panels s)) (snd (openDocViewer c s))) = None"
  using assms
  by (cases c)
    (auto simp: Let_def openDocViewer_def createWebviewPanel_def onDidDispose_def
      closePanel_def updateDocumentationContent_def executeHoverProvider_def
      split: option.splits)

lemma openDocViewer_calls:
  assumes "fst (openDocViewer c s) = None"
  shows "hoverCalls (snd (openDocViewer c s))
           = hoverCalls s @ (case activeTextEditor s of
                               None \<Rightarrow> []
                             | Some e \<Rightarrow> [(document e, selection_active e)])"
  using assms
  by (cases c)
    (auto simp: Let_def openDocViewer_def createWebviewPanel_def onDidDispose_def reveal_def
      updateDocumentationContent_def executeHoverProvider_def split: option.splits)

subsection \<open>A panel closed during a cycle\<close>

lemma fold_runListener_frame:
  "panels (fold runListener ls s) = panels s
   \<and> hoverCalls (fold runListener ls s) = hoverCalls s
   \<and> docViewer (fold runListener ls s) = (if ls = [] then docViewer s else None)"
proof (induction ls arbitrary: s)
  case Nil
  then show ?case by simp
next
  case (Cons l ls)
  then show ?case by (cases l) simp
qed

lemma map_html_disposed:
  "map html (xs[q := (xs ! q)\<lparr>disposed := True\<rparr>]) = map html xs"
  by (induction xs arbitrary: q) (auto split: nat.splits)

lemma closePanel_frame:
  "map html (panels (closePanel q s)) = map html (panels s)
   \<and> hoverCalls (closePanel q s) = hoverCalls s"
  by (simp add: closePanel_def fold_runListener_frame map_html_disposed)

lemma closePanel_hooked:
  assumes "docViewer s = Some p" and "hooked s"
  shows "docViewer (closePanel p s) = None"
  using assms by (auto simp: hooked_def closePanel_def fold_runListener_frame)

lemma closed_step:
  assumes "docViewer s = None" and "\<not> isOpenCommand ev"
  shows "docViewer (step render ev s) = None
       \<and> map html (panels (step render ev s)) = map html (panels s)
       \<and> hoverCalls (step render ev s) = hoverCalls s"
proof (cases ev)
  case (SelectionChange ed)
  with assms show ?thesis by (simp add: onDidChangeTextEditorSelection_def)
next
  case (Elapse d)
  with assms show ?thesis by (simp add: elapse_def fold_timerCallback_closed)
next
  case (HoverAnswer i hovers)
  with assms show ?thesis
    by (simp add: hoverAnswer_def updateDocumentationContent_resume_def split: sum.splits)
next
  case (OpenCommand c)
  with assms show ?thesis by simp
next
  case (ClosePanel q)
  with assms show ?thesis
    by (simp add: closePanel_frame) (simp add: closePanel_def fold_runListener_frame)
qed

lemma closed_fold:
  assumes "docViewer s = None" and "\<forall>ev \<in> set evs. \<not> isOpenCommand ev"
  shows "docViewer (fold (step render) evs s) = None
       \<and> map html (panels (fold (step render) evs s)) = map html (panels s)
       \<and> hoverCalls (fold (step render) evs s) = hoverCalls s"
  using assms
proof (induction evs arbitrary: s)
  case Nil
  then show ?case by simp
next
  case (Cons ev evs)
  from Cons.prems have st: "docViewer (step render ev s) = None
       \<and> map html (panels (step render ev s)) = map html (panels s)
       \<and> hoverCalls (step render ev s) = hoverCalls s"
    by (intro closed_step) simp_all
  from Cons.prems have "\<forall>ev \<in> set evs. \<not> isOpenCommand ev" by simp
  with st Cons.IH [of "step render ev s"] show ?case by simp
qed

text \<open>The listener is there in every state reached by running the command with an argument.\<close>

lemma fold_timerCallback_frame:
  "docViewer (fold timerCallback ts s) = docViewer s
   \<and> panels (fold timerCallback ts s) = panels s"
  by (induction ts arbitrary: s)
    (auto simp: timerCallback_def updateDocumentationContent_def executeHoverProvider_def
      split: option.splits)

lemma hooked_step:
  assumes "hooked s" and "ev \<noteq> OpenCommand NoArgument"
  shows "hooked (step render ev s)"
proof (cases ev)
  case (SelectionChange ed)
  with assms show ?thesis
    by (auto simp: hooked_def onDidChangeTextEditorSelection_def Let_def setTimeout_def
        clearTimeout_def split: option.splits)
next
  case (Elapse d)
  with assms show ?thesis
    by (auto simp: hooked_def elapse_def fold_timerCallback_frame split: option.splits)
next
  case (HoverAnswer i hovers)
  with assms show ?thesis
    by (auto simp: hooked_def hoverAnswer_def updateDocumentationContent_resume_def setHtml_def
        split: sum.splits option.splits)
next
  case (OpenCommand c)
  with assms have "c \<noteq> NoArgument" by simp
  with assms(1) OpenCommand show ?thesis
    by (cases c)
      (auto simp: hooked_def Let_def openDocViewer_def createWebviewPanel_def onDidDispose_def
        reveal_def updateDocumentationContent_def executeHoverProvider_def nth_append
        split: option.splits)
next
  case (ClosePanel q)
  with assms(1) show ?thesis
    by (auto simp: hooked_def closePanel_def fold_runListener_frame nth_list_update
        split: option.splits)
qed

lemma hooked_fold:
  "hooked s \<Longrightarrow> OpenCommand NoArgument \<notin> set evs \<Longrightarrow> hooked (fold (step render) evs s)"
proof (induction evs arbitrary: s)
  case Nil
  then show ?case by simp
next
  case (Cons ev evs)
  then have "hooked (step render ev s)" by (intro hooked_step) auto
  with Cons show ?case by simp
qed

lemma hooked_reachable:
  "OpenCommand NoArgument \<notin> set evs \<Longrightarrow> hooked (run render evs (activate ed))"
  unfolding run_def by (rule hooked_fold) (simp_all add: hooked_def activate_def)

text \<open>
  Claim C7, as stated, fails when the command is run again after the panel was closed:
  in the state \<open>reopened\<close> panel 0 was closed while the timer's hover call was pending
  and \<^verbatim>\<open>docViewer\<close> now refers to the new panel 1; the host's answer to that call, which
  completes after panel 0 has been closed, is written to panel 1.
\<close>

theorem stale_cycle_writes_new_panel:
  "disposed (panels reopened ! 0) \<and> docViewer reopened = Some 1
   \<and> pending reopened = [(''file:///a.ts'', pos 1 2), (''file:///a.ts'', pos 1 2)]
   \<and> html (panels reopened ! 1) = ''''
   \<and> html (panels (step noRender (HoverAnswer 0 (Some [plainHover ''stale''])) reopened) ! 1)
       = page_head @ ''stale'' @ page_tail"
  by (simp add: reopened_def opened_eq model_defs)

text \<open>
  Claim C7, amended. Let \<^verbatim>\<open>docViewer\<close> refer to a live panel that has the listener
  clearing it (as in every state reached by running the command with an argument). Once
  that panel is closed, and for as long as the command is not run again, whatever
  happens next (timers firing, hover calls answered, selection changes) makes no hover
  call and writes to no panel: \<^verbatim>\<open>docViewer\<close> stays unset.
\<close>

theorem closed_panel_no_write:
  assumes "docViewer s = Some p" and "hooked s"
    and "\<forall>ev \<in> set evs. \<not> isOpenCommand ev"
  shows "docViewer (run render (ClosePanel p # evs) s) = None
       \<and> map html (panels (run render (ClosePanel p # evs) s)) = map html (panels s)
       \<and> hoverCalls (run render (ClosePanel p # evs) s) = hoverCalls s"
proof -
  have c: "docViewer (closePanel p s) = None"
    using assms(1) assms(2) by (rule closePanel_hooked)
  have f: "map html (panels (closePanel p s)) = map html (panels s)
       \<and> hoverCalls (closePanel p s) = hoverCalls s"
    by (rule closePanel_frame)
  show ?thesis
    using closed_fold [OF c assms(3), of render] f by (simp add: run_def)
qed

theorem closed_panel_no_write_witness:
  "pending inFlight = [(''file:///a.ts'', pos 1 2)] \<and> timers moved \<noteq> []
   \<and> map html (panels (run noRender
        [ClosePanel 0, HoverAnswer 0 (Some [plainHover ''late''])] inFlight))
       = map html (panels inFlight)
   \<and> hoverCalls (run noRender [ClosePanel 0, Elapse 60] moved) = hoverCalls moved
   \<and> map html (panels (run noRender [ClosePanel 0, Elapse 60] moved)) = map html (panels moved)"
proof -
  have a: "docViewer inFlight = Some 0" "hooked inFlight"
    "pending inFlight = [(''file:///a.ts'', pos 1 2)]"
    by (simp_all add: inFlight_def opened_eq hooked_def model_defs)
  have b: "docViewer moved = Some 0" "hooked moved" "timers moved \<noteq> []"
    by (simp_all add: moved_eq hooked_def)
  have e: "\<forall>ev \<in> set [HoverAnswer 0 (Some [plainHover ''late''])]. \<not> isOpenCommand ev"
    "\<forall>ev \<in> set [Elapse 60]. \<not> isOpenCommand ev"
    by simp_all
  show ?thesis
    using closed_panel_no_write [OF a(1) a(2) e(1), of noRender]
      closed_panel_no_write [OF b(1) b(2) e(2), of noRender] a(3) b(3)
    by simp
qed

end
